theory Spec2Isabelle
  imports Main "HOL-Library.Multiset" "HOL-Library.Product_Lexorder"
begin

section \<open>Data model\<close>

text \<open>
  Opaque protocol payloads (\<open>code\<close>, \<open>codeDescription\<close>, \<open>tags\<close>,
  \<open>relatedInformation\<close>, \<open>data\<close>, and whatever else a backend attaches) are
  JavaScript values; an object is a list of own properties in insertion order.
\<close>

datatype json =
    JNull
  | JBool bool
  | JNum int
  | JStr string
  | JArr "json list"
  | JObj "(string \<times> json) list"

type_synonym obj = "(string \<times> json) list"

datatype error = Error string

record position =
  line :: int
  character :: int

text \<open>\<open>end\<close> is a keyword of Isabelle, so the field \<open>end\<close> of a range is \<open>end_pos\<close>.\<close>

record range =
  start :: position
  end_pos :: position

text \<open>
  \<open>DduDiagnostic = Diagnostic & {bufNr?, path?}\<close>. An optional field is an \<open>option\<close>
  (\<open>None\<close> is \<open>undefined\<close>). \<open>extra\<close> holds the own properties that the spread
  \<open>...diag\<close> of an adapter carries over from the raw record and that the type does not name.
\<close>

record ddu_diagnostic =
  range :: range
  severity :: "int option"
  code :: "json option"
  codeDescription :: "json option"
  source :: "string option"
  message :: string
  tags :: "json option"
  relatedInformation :: "json option"
  data :: "json option"
  bufNr :: "int option"
  path :: "string option"
  extra :: obj

text \<open>
  The action payload of an item. Its \<open>path\<close> and \<open>bufNr\<close> are named \<open>a_path\<close> and
  \<open>a_bufNr\<close> to keep them apart from the fields of the diagnostic.
\<close>

record action_data =
  a_path :: "string option"
  a_bufNr :: "int option"
  lineNr :: int
  col :: int

record item_diagnostic =
  word :: string
  action :: action_data
  item_data :: ddu_diagnostic

section \<open>The diagnostic sorter\<close>

text \<open>
  The comparator of \<open>sortItemDiagnostic\<close>. \<open>a.action.bufNr && \<dots>\<close> is a truthiness test:
  it fails for \<open>undefined\<close> and for \<open>0\<close>.
\<close>

definition truthy :: "int option \<Rightarrow> bool" where
  "truthy b = (case b of None \<Rightarrow> False | Some n \<Rightarrow> n \<noteq> 0)"

definition or_one :: "int option \<Rightarrow> int" where
  "or_one s = (case s of None \<Rightarrow> 1 | Some n \<Rightarrow> n)"

definition compare_items :: "int \<Rightarrow> item_diagnostic \<Rightarrow> item_diagnostic \<Rightarrow> int" where
  "compare_items curBufNr a b =
    (if truthy (a_bufNr (action a)) \<and> a_bufNr (action a) = a_bufNr (action b) then
       (if severity (item_data a) = severity (item_data b)
        then lineNr (action a) - lineNr (action b)
        else or_one (severity (item_data a)) - or_one (severity (item_data b)))
     else if a_bufNr (action a) = None \<or> a_bufNr (action a) = Some curBufNr then - 1
     else if a_bufNr (action b) = None \<or> a_bufNr (action b) = Some curBufNr then 1
     else the (a_bufNr (action a)) - the (a_bufNr (action b)))"

text \<open>
  \<open>Array.prototype.sort\<close> belongs to the JavaScript engine, not to the repository. ECMAScript
  fixes its result (the stable sorted order) only when the comparator is consistent on the
  elements; otherwise the order is implementation-defined. The plugin runs on Deno, whose
  engine is V8. The model follows what V8 does with an array of fewer than 64 elements:
  \<^item> \<open>CountAndMakeRun\<close>: the first two elements decide whether the initial run is strictly
    descending (\<open>cmp(e1, e0) < 0\<close>) or not; the run is extended while each next element
    compares the same way with its predecessor; a descending run is reversed;
  \<^item> \<open>BinaryInsertionSort\<close>: every remaining element is the pivot of a binary search in the
    sorted prefix (\<open>cmp(pivot, mid) < 0\<close> moves the right bound, anything else the left one)
    and is inserted at the position found.
  Longer arrays are cut into such runs, which V8 then merges. On a consistent comparator the
  result is the stable sorted order, which every engine must produce for every length; on
  any other comparator the model says what V8 returns for the short arrays.
\<close>

fun split_run :: "bool \<Rightarrow> ('a \<Rightarrow> 'a \<Rightarrow> int) \<Rightarrow> 'a \<Rightarrow> 'a list \<Rightarrow> 'a list \<times> 'a list" where
  "split_run desc cmp prev [] = ([], [])"
| "split_run desc cmp prev (c # cs) =
    (if (if desc then cmp c prev < 0 else \<not> cmp c prev < 0)
     then (case split_run desc cmp c cs of (r, t) \<Rightarrow> (c # r, t))
     else ([], c # cs))"

function binary_search :: "('a \<Rightarrow> 'a \<Rightarrow> int) \<Rightarrow> 'a \<Rightarrow> 'a list \<Rightarrow> nat \<Rightarrow> nat \<Rightarrow> nat" where
  "binary_search cmp pivot arr left right =
    (if left < right then
       (let mid = left + (right - left) div 2 in
        if cmp pivot (arr ! mid) < 0
        then binary_search cmp pivot arr left mid
        else binary_search cmp pivot arr (mid + 1) right)
     else left)"
  by pat_completeness auto
termination
  by (relation "measure (\<lambda>(cmp, pivot, arr, left, right). right - left)") auto

declare binary_search.simps [simp del]

definition insert_pivot :: "('a \<Rightarrow> 'a \<Rightarrow> int) \<Rightarrow> 'a \<Rightarrow> 'a list \<Rightarrow> 'a list" where
  "insert_pivot cmp pivot sorted_prefix =
    (let left = binary_search cmp pivot sorted_prefix 0 (length sorted_prefix)
     in take left sorted_prefix @ pivot # drop left sorted_prefix)"

fun binary_insertion_sort :: "('a \<Rightarrow> 'a \<Rightarrow> int) \<Rightarrow> 'a list \<Rightarrow> 'a list \<Rightarrow> 'a list" where
  "binary_insertion_sort cmp sorted_prefix [] = sorted_prefix"
| "binary_insertion_sort cmp sorted_prefix (pivot # rest) =
    binary_insertion_sort cmp (insert_pivot cmp pivot sorted_prefix) rest"

fun array_sort :: "('a \<Rightarrow> 'a \<Rightarrow> int) \<Rightarrow> 'a list \<Rightarrow> 'a list" where
  "array_sort cmp (e0 # e1 # es) =
    (let desc = cmp e1 e0 < 0 in
     case split_run desc cmp e1 es of (r, t) \<Rightarrow>
       binary_insertion_sort cmp (if desc then rev (e0 # e1 # r) else e0 # e1 # r) t)"
| "array_sort cmp es = es"

definition sortItemDiagnostic :: "item_diagnostic list \<Rightarrow> int \<Rightarrow> item_diagnostic list" where
  "sortItemDiagnostic items curBufNr = array_sort (compare_items curBufNr) items"


section \<open>The item builder for diagnostics\<close>

text \<open>\<open>message.split("\n")[0]\<close>: the text before the first line feed (the whole message when
  there is none; \<open>"".split("\n")\<close> is \<open>[""]\<close>).\<close>

definition first_line :: "string \<Rightarrow> string" where
  "first_line s = takeWhile (\<lambda>c. c \<noteq> CHR 0x0A) s"

definition diagnosticToItem :: "ddu_diagnostic \<Rightarrow> item_diagnostic" where
  "diagnosticToItem diagnostic =
    \<lparr> word = first_line (message diagnostic),
      action = \<lparr> a_path = path diagnostic,
                 a_bufNr = bufNr diagnostic,
                 lineNr = line (start (range diagnostic)) + 1,
                 col = character (start (range diagnostic)) + 1 \<rparr>,
      item_data = diagnostic \<rparr>"

section \<open>The backend adapters\<close>

text \<open>The table \<open>Severity\<close>; a name outside the table reads \<open>undefined\<close>.\<close>

definition Severity :: "string \<Rightarrow> int option" where
  "Severity = map_of [(''Error'', 1), (''Warning'', 2), (''Info'', 3), (''Hint'', 4)]"

datatype host = Vim | Nvim

datatype client_name = NvimLsp | CocNvim | VimLsp

text \<open>
  The raw records of the three backends. The fields that a raw record shares with the
  canonical diagnostic carry a prefix (\<open>nv_\<close>, \<open>coc_\<close>, \<open>p_\<close>), and so does \<open>file\<close>, a keyword of Isabelle; the
  others keep their names.
\<close>

record nvim_lsp_diagnostic =
  nv_message :: string
  nv_severity :: "int option"
  nv_source :: "string option"
  nv_code :: "json option"
  lnum :: int
  end_lnum :: int
  nv_col :: int
  end_col :: int
  bufnr :: int

record location =
  uri :: string
  loc_range :: range

record coc_diagnostic =
  coc_message :: string
  coc_source :: "string option"
  coc_code :: "json option"
  coc_file :: string
  location :: location
  coc_severity :: string

text \<open>A protocol \<open>Diagnostic\<close> as vim-lsp stores it, and the group \<open>params\<close> it sits in.\<close>

record diagnostic =
  p_range :: range
  p_severity :: "int option"
  p_code :: "json option"
  p_codeDescription :: "json option"
  p_source :: "string option"
  p_message :: string
  p_tags :: "json option"
  p_relatedInformation :: "json option"
  p_data :: "json option"

record vim_lsp_diagnostic =
  params_uri :: string
  params_diagnostics :: "diagnostic list"

text \<open>
  The host bridge and the collaborators that the source file imports but does not define:
  every call may throw, so every one returns a sum. \<open>vim_diagnostic_get\<close> is
  \<open>luaeval("vim.diagnostic.get(bufNr)")\<close>, \<open>coc_diagnosticList\<close> is
  \<open>CocAction("diagnosticList")\<close> (both may be \<open>null\<close>), the two \<open>vimlsp\<close> calls return keyed
  objects whose values \<open>Object.values\<close> lists in order.
\<close>

record denops =
  meta_host :: host
  vim_diagnostic_get :: "int option \<Rightarrow> error + nvim_lsp_diagnostic list option"
  coc_diagnosticList :: "error + coc_diagnostic list option"
  vimlsp_grouped_by_server_for_uri :: "string \<Rightarrow> error + (string \<times> vim_lsp_diagnostic) list"
  vimlsp_grouped_by_uri_and_server :: "error + (string \<times> (string \<times> vim_lsp_diagnostic) list) list"
  bufNrToFileUri :: "int \<Rightarrow> error + string"
  fromFileUrl :: "string \<Rightarrow> error + string"
  addIconAndHighlight :: "item_diagnostic \<Rightarrow> error + item_diagnostic"

definition bind_err :: "error + 'a \<Rightarrow> ('a \<Rightarrow> error + 'b) \<Rightarrow> error + 'b" where
  "bind_err m f = (case m of Inl e \<Rightarrow> Inl e | Inr x \<Rightarrow> f x)"

fun map_err :: "('a \<Rightarrow> error + 'b) \<Rightarrow> 'a list \<Rightarrow> error + 'b list" where
  "map_err f [] = Inr []"
| "map_err f (x # xs) =
    bind_err (f x) (\<lambda>y. bind_err (map_err f xs) (\<lambda>ys. Inr (y # ys)))"

definition flat_map_err :: "('a \<Rightarrow> error + 'b list) \<Rightarrow> 'a list \<Rightarrow> error + 'b list" where
  "flat_map_err f xs = bind_err (map_err f xs) (\<lambda>yss. Inr (concat yss))"

definition json_position :: "position \<Rightarrow> json" where
  "json_position p = JObj [(''line'', JNum (line p)), (''character'', JNum (character p))]"

definition json_range :: "range \<Rightarrow> json" where
  "json_range r = JObj [(''start'', json_position (start r)), (''end'', json_position (end_pos r))]"

definition nvim_to_ddu :: "nvim_lsp_diagnostic \<Rightarrow> ddu_diagnostic" where
  "nvim_to_ddu diag =
    \<lparr> range = \<lparr> start = \<lparr> line = lnum diag, character = nv_col diag \<rparr>,
                 end_pos = \<lparr> line = end_lnum diag, character = end_col diag \<rparr> \<rparr>,
      severity = nv_severity diag,
      code = nv_code diag,
      codeDescription = None,
      source = nv_source diag,
      message = nv_message diag,
      tags = None,
      relatedInformation = None,
      data = None,
      bufNr = Some (bufnr diag),
      path = None,
      extra = [(''lnum'', JNum (lnum diag)), (''end_lnum'', JNum (end_lnum diag)),
               (''col'', JNum (nv_col diag)), (''end_col'', JNum (end_col diag)),
               (''bufnr'', JNum (bufnr diag))] \<rparr>"

definition getNvimLspDiagnostics :: "denops \<Rightarrow> int option \<Rightarrow> error + ddu_diagnostic list option" where
  "getNvimLspDiagnostics dn bufNr' =
    (if meta_host dn = Vim then Inl (Error ''Client 'nvim-lsp' is not available in vim'')
     else bind_err (vim_diagnostic_get dn bufNr') (\<lambda>res. Inr (map_option (map nvim_to_ddu) res)))"

definition coc_to_ddu :: "coc_diagnostic \<Rightarrow> ddu_diagnostic" where
  "coc_to_ddu diag =
    \<lparr> range = loc_range (location diag),
      severity = Severity (coc_severity diag),
      code = coc_code diag,
      codeDescription = None,
      source = coc_source diag,
      message = coc_message diag,
      tags = None,
      relatedInformation = None,
      data = None,
      bufNr = None,
      path = Some (coc_file diag),
      extra = [(''file'', JStr (coc_file diag)),
               (''location'', JObj [(''uri'', JStr (uri (location diag))),
                                     (''range'', json_range (loc_range (location diag)))])] \<rparr>"

text \<open>\<open>bufNr ? await bufNrToFileUri(denops, bufNr) : undefined\<close>, and \<open>!uri\<close> in the filter:
  both are truthiness tests (\<open>null\<close> and \<open>0\<close> are falsy, and so is the empty string).\<close>

definition getCocDiagnostics :: "denops \<Rightarrow> int option \<Rightarrow> error + ddu_diagnostic list option" where
  "getCocDiagnostics dn bufNr' =
    bind_err (if truthy bufNr' then bind_err (bufNrToFileUri dn (the bufNr')) (\<lambda>u. Inr (Some u))
              else Inr None) (\<lambda>uri'.
    bind_err (coc_diagnosticList dn) (\<lambda>res.
      Inr (map_option
        (\<lambda>ds. map coc_to_ddu
           (filter (\<lambda>diag. (uri' = None \<or> uri' = Some []) \<or> Some (uri (location diag)) = uri') ds))
        res)))"

definition vimlsp_to_ddu :: "string \<Rightarrow> diagnostic \<Rightarrow> ddu_diagnostic" where
  "vimlsp_to_ddu path' diag =
    \<lparr> range = p_range diag,
      severity = p_severity diag,
      code = p_code diag,
      codeDescription = p_codeDescription diag,
      source = p_source diag,
      message = p_message diag,
      tags = p_tags diag,
      relatedInformation = p_relatedInformation diag,
      data = p_data diag,
      bufNr = None,
      path = Some path',
      extra = [] \<rparr>"

definition vimlsp_group :: "denops \<Rightarrow> vim_lsp_diagnostic \<Rightarrow> error + ddu_diagnostic list" where
  "vimlsp_group dn vimDiagnostic =
    bind_err (fromFileUrl dn (params_uri vimDiagnostic)) (\<lambda>path'.
      Inr (map (vimlsp_to_ddu path') (params_diagnostics vimDiagnostic)))"

definition getVimLspDiagnostics :: "denops \<Rightarrow> int option \<Rightarrow> error + ddu_diagnostic list option" where
  "getVimLspDiagnostics dn bufNr' =
    (if truthy bufNr' then
       bind_err (bufNrToFileUri dn (the bufNr')) (\<lambda>uri'.
       bind_err (vimlsp_grouped_by_server_for_uri dn uri') (\<lambda>groups.
       bind_err (flat_map_err (vimlsp_group dn) (map snd groups)) (\<lambda>ds. Inr (Some ds))))
     else
       bind_err (vimlsp_grouped_by_uri_and_server dn) (\<lambda>groups.
       bind_err (flat_map_err (vimlsp_group dn) (concat (map (\<lambda>sub. map snd (snd sub)) groups)))
         (\<lambda>ds. Inr (Some ds))))"

definition getDiagnostic :: "client_name \<Rightarrow> denops \<Rightarrow> int option \<Rightarrow> error + ddu_diagnostic list option" where
  "getDiagnostic clientName dn bufNr' =
    (case clientName of
       NvimLsp \<Rightarrow> getNvimLspDiagnostics dn bufNr'
     | CocNvim \<Rightarrow> getCocDiagnostics dn bufNr'
     | VimLsp \<Rightarrow> getVimLspDiagnostics dn bufNr')"


section \<open>The diagnostic source\<close>

text \<open>\<open>Params.buffer\<close> is \<open>number | number[] | null\<close>.\<close>

datatype buffer_param = BufferNull | Buffer int | Buffers "int list"

text \<open>
  What a \<open>gather\<close> leaves behind: the batches it enqueued on the stream, the errors it handed
  to \<open>printError\<close> (with the name of the source), the lines it wrote with \<open>console.log\<close>, and
  whether it closed the stream.
\<close>

record 'a gathered =
  enqueued :: "'a list list"
  reported :: "(error \<times> string) list"
  console :: "string list"
  closed :: bool

text \<open>Modelled from the spec: \<open>assertClientName\<close> (client.ts is not part of the sources)
  accepts the three supported client names, which are all the values of \<open>client_name\<close>.\<close>

definition assertClientName :: "client_name \<Rightarrow> error + unit" where
  "assertClientName clientName = Inr ()"

text \<open>Modelled from the spec: \<open>asyncFlatMap\<close> is used but not defined in the sources; the
  adapter is invoked once per buffer id and the results are concatenated in the order of the
  input list. A call that fails makes the whole fail.\<close>

definition asyncFlatMap :: "'a list \<Rightarrow> ('a \<Rightarrow> error + 'b list) \<Rightarrow> error + 'b list" where
  "asyncFlatMap xs f = flat_map_err f xs"

definition scope_buffers :: "buffer_param \<Rightarrow> int option list" where
  "scope_buffers buffer =
    (case buffer of Buffers bs \<Rightarrow> map Some bs | Buffer b \<Rightarrow> [Some b] | BufferNull \<Rightarrow> [None])"

definition gather_items :: "denops \<Rightarrow> int \<Rightarrow> client_name \<Rightarrow> buffer_param \<Rightarrow> error + item_diagnostic list" where
  "gather_items dn context_bufNr clientName buffer =
    bind_err (assertClientName clientName) (\<lambda>_.
    bind_err (asyncFlatMap (scope_buffers buffer) (\<lambda>buffer'.
        bind_err (getDiagnostic clientName dn (if buffer' = Some 0 then Some context_bufNr else buffer'))
          (\<lambda>res. Inr (case res of None \<Rightarrow> [] | Some ds \<Rightarrow> ds)))) (\<lambda>diagnostics.
    bind_err (map_err (\<lambda>diagnostic. addIconAndHighlight dn (diagnosticToItem diagnostic)) diagnostics)
      (\<lambda>items. Inr (sortItemDiagnostic items context_bufNr))))"

text \<open>\<open>Source.gather\<close>: the body of \<open>try\<close>, the \<open>catch\<close> that reports, the \<open>finally\<close> that closes.\<close>

definition gather :: "denops \<Rightarrow> int \<Rightarrow> client_name \<Rightarrow> buffer_param \<Rightarrow> item_diagnostic gathered" where
  "gather dn context_bufNr clientName buffer =
    (case gather_items dn context_bufNr clientName buffer of
       Inr items \<Rightarrow> \<lparr> enqueued = [items], reported = [], console = [], closed = True \<rparr>
     | Inl e \<Rightarrow> \<lparr> enqueued = [], reported = [(e, ''lsp_diagnostic'')], console = [], closed = True \<rparr>)"

section \<open>The field sanitizer\<close>

text \<open>The own properties of the JavaScript object that a \<open>ddu_diagnostic\<close> stands for: an
  optional field is a property only when it is defined.\<close>

definition opt_field :: "string \<Rightarrow> json option \<Rightarrow> obj" where
  "opt_field name v = (case v of None \<Rightarrow> [] | Some j \<Rightarrow> [(name, j)])"

definition to_obj :: "ddu_diagnostic \<Rightarrow> obj" where
  "to_obj d =
    [(''range'', json_range (range d))] @
    opt_field ''severity'' (map_option JNum (severity d)) @
    opt_field ''code'' (code d) @
    opt_field ''codeDescription'' (codeDescription d) @
    opt_field ''source'' (map_option JStr (source d)) @
    [(''message'', JStr (message d))] @
    opt_field ''tags'' (tags d) @
    opt_field ''relatedInformation'' (relatedInformation d) @
    opt_field ''data'' (data d) @
    opt_field ''bufNr'' (map_option JNum (bufNr d)) @
    opt_field ''path'' (map_option JStr (path d)) @
    extra d"

text \<open>Modelled from the spec: \<open>pick\<close> (util.ts is not part of the sources) returns a record
  that contains only the named fields, each with the value it has in the object, and drops
  every other field.\<close>

definition pick :: "obj \<Rightarrow> string list \<Rightarrow> obj" where
  "pick ob keys = concat (map (\<lambda>k. case map_of ob k of None \<Rightarrow> [] | Some v \<Rightarrow> [(k, v)]) keys)"

definition proper_fields :: "string list" where
  "proper_fields = [''range'', ''severity'', ''code'', ''codeDescription'', ''source'',
                    ''message'', ''tags'', ''relatedInformation'', ''data'']"

definition getProperDiagnostics :: "client_name \<Rightarrow> denops \<Rightarrow> int option \<Rightarrow> error + obj list" where
  "getProperDiagnostics clientName dn bufNr' =
    bind_err (getDiagnostic clientName dn bufNr') (\<lambda>dduDiagnostics.
      Inr (case dduDiagnostics of
             None \<Rightarrow> []
           | Some ds \<Rightarrow> map (\<lambda>diag. pick (to_obj diag) proper_fields) ds))"

section \<open>The location source\<close>

record location_link =
  originSelectionRange :: "range option"
  targetUri :: string
  targetRange :: range
  targetSelectionRange :: range

text \<open>\<open>Location | LocationLink\<close>: an entry has \<open>uri\<close> and \<open>range\<close>, or it is a link.\<close>

datatype raw_location = Location location | LocationLink location_link

fun toLocation :: "raw_location \<Rightarrow> location" where
  "toLocation (Location loc) = loc"
| "toLocation (LocationLink loc) = \<lparr> uri = targetUri loc, loc_range = targetSelectionRange loc \<rparr>"

text \<open>The fields of the file action and of its item carry the prefixes \<open>fa_\<close> and \<open>f_\<close>.\<close>

record file_action =
  fa_path :: string
  fa_lineNr :: int
  fa_col :: int

record file_item =
  f_word :: string
  f_display :: string
  f_action :: file_action

text \<open>The decimal digits of an integer, as a template literal prints it.\<close>

function show_nat :: "nat \<Rightarrow> string" where
  "show_nat n = (if n < 10 then [char_of (48 + n)] else show_nat (n div 10) @ [char_of (48 + n mod 10)])"
  by pat_completeness auto
termination
  by (relation "measure id") auto

declare show_nat.simps [simp del]

definition show_int :: "int \<Rightarrow> string" where
  "show_int i = (if i < 0 then CHR ''-'' # show_nat (nat (- i)) else show_nat (nat i))"

definition startsWith :: "string \<Rightarrow> string \<Rightarrow> bool" where
  "startsWith s p = (take (length p) s = p)"

text \<open>
  \<open>new URL(uri).pathname\<close> belongs to the platform; it is the parameter \<open>pathname\<close>, and it
  may throw.
\<close>

definition locationToItem :: "(string \<Rightarrow> error + string) \<Rightarrow> location \<Rightarrow> error + file_item" where
  "locationToItem pathname loc =
    bind_err (if startsWith (uri loc) ''file:'' then pathname (uri loc) else Inr (uri loc)) (\<lambda>path'.
      let lineNr' = line (start (loc_range loc)) + 1;
          col' = character (start (loc_range loc)) + 1
      in Inr \<lparr> f_word = path',
               f_display = path' @ '':'' @ show_int lineNr' @ '':'' @ show_int col',
               f_action = \<lparr> fa_path = path', fa_lineNr = lineNr', fa_col = col' \<rparr> \<rparr>)"

text \<open>
  The regular expression \<open>/^deno:.*%23(%5E|%7E|%3C|%3D)/\<close>. \<open>.\<close> matches every character
  but a line terminator; of these a \<open>char\<close> can be the line feed and the carriage return.
\<close>

definition line_terminator :: "char \<Rightarrow> bool" where
  "line_terminator c = (c = CHR 0x0A \<or> c = CHR 0x0D)"

definition udd_fragment :: "string \<Rightarrow> bool" where
  "udd_fragment s =
    (take 3 s = ''%23'' \<and> take 3 (drop 3 s) \<in> set [''%5E'', ''%7E'', ''%3C'', ''%3D''])"

fun dot_star_fragment :: "string \<Rightarrow> bool" where
  "dot_star_fragment [] = False"
| "dot_star_fragment (c # cs) =
    (udd_fragment (c # cs) \<or> (\<not> line_terminator c \<and> dot_star_fragment cs))"

definition isDenoUriWithFragment :: "location \<Rightarrow> bool" where
  "isDenoUriWithFragment loc = (startsWith (uri loc) ''deno:'' \<and> dot_star_fragment (drop 5 (uri loc)))"

definition SUPPORTED_METHODS :: "string list" where
  "SUPPORTED_METHODS =
    [''textDocument/declaration'', ''textDocument/definition'', ''textDocument/typeDefinition'',
     ''textDocument/implementation'', ''textDocument/references'']"

definition isSupportedMethod :: "string \<Rightarrow> bool" where
  "isSupportedMethod method = list_ex (\<lambda>m. method = m) SUPPORTED_METHODS"

text \<open>The \<open>result\<close> of one client: a single location, or an array of entries.\<close>

datatype lsp_result = Single location | Many "raw_location list"

type_synonym response = "(int \<times> lsp_result) list"

definition definitionHandler :: "(string \<Rightarrow> error + string) \<Rightarrow> response \<Rightarrow> error + file_item list" where
  "definitionHandler pathname response =
    map_err (locationToItem pathname)
      (filter (\<lambda>loc. \<not> isDenoUriWithFragment loc)
        (concat (map (\<lambda>(clientId, result).
           case result of Single loc \<Rightarrow> [loc] | Many locs \<Rightarrow> map toLocation locs) response)))"

text \<open>
  \<open>referencesHandler\<close> takes the entries as they are (\<open>result as Location[]\<close>). An entry
  without \<open>uri\<close> passes the filter (the pattern is tested on \<open>undefined\<close>) and makes
  \<open>uri.startsWith\<close> throw.
\<close>

definition referencesHandler :: "(string \<Rightarrow> error + string) \<Rightarrow> response \<Rightarrow> error + file_item list" where
  "referencesHandler pathname response =
    map_err (\<lambda>entry. case entry of
               Location loc \<Rightarrow> locationToItem pathname loc
             | LocationLink _ \<Rightarrow> Inl (Error ''TypeError''))
      (filter (\<lambda>entry. case entry of
                 Location loc \<Rightarrow> \<not> isDenoUriWithFragment loc
               | LocationLink _ \<Rightarrow> True)
        (concat (map (\<lambda>(clientId, result).
           case result of Single loc \<Rightarrow> [Location loc] | Many locs \<Rightarrow> locs) response)))"

text \<open>\<open>Source.gather\<close> of the location source; \<open>response\<close> is what the host bridge returned
  (\<open>None\<close> is \<open>null\<close>). Nothing catches what a handler throws.\<close>

definition gather_locations ::
  "(string \<Rightarrow> error + string) \<Rightarrow> string \<Rightarrow> response option \<Rightarrow> error + file_item gathered" where
  "gather_locations pathname method response =
    (if \<not> isSupportedMethod method then
       Inr \<lparr> enqueued = [], reported = [], console = [''Unsupported method: '' @ method], closed = True \<rparr>
     else case response of
       None \<Rightarrow> Inr \<lparr> enqueued = [], reported = [], console = [], closed = True \<rparr>
     | Some r \<Rightarrow>
         bind_err (if method = ''textDocument/references''
                   then referencesHandler pathname r else definitionHandler pathname r)
           (\<lambda>items. Inr \<lparr> enqueued = [items], reported = [], console = [], closed = True \<rparr>))"

section \<open>Vocabulary of the properties\<close>

subsection \<open>Comparators that follow a key\<close>



subsection \<open>Keys and orders of diagnostic items\<close>











subsection \<open>Fixtures\<close>






subsection \<open>Fixtures of the adapters and of the location source\<close>


definition fixture_range :: range where
  "fixture_range = \<lparr> start = \<lparr> line = 2, character = 4 \<rparr>, end_pos = \<lparr> line = 2, character = 9 \<rparr> \<rparr>"

definition fixture_nvim :: nvim_lsp_diagnostic where
  "fixture_nvim = \<lparr> nv_message = ''unused variable'', nv_severity = Some 2, nv_source = None,
     nv_code = None, lnum = 2, end_lnum = 2, nv_col = 4, end_col = 9, bufnr = 7 \<rparr>"

definition fixture_coc :: "string \<Rightarrow> coc_diagnostic" where
  "fixture_coc u = \<lparr> coc_message = ''unused variable'', coc_source = None, coc_code = None,
     coc_file = ''/a.ts'', location = \<lparr> uri = u, loc_range = fixture_range \<rparr>,
     coc_severity = ''Warning'' \<rparr>"

definition fixture_protocol :: diagnostic where
  "fixture_protocol = \<lparr> p_range = fixture_range, p_severity = Some 2, p_code = None,
     p_codeDescription = None, p_source = None, p_message = ''unused variable'', p_tags = None,
     p_relatedInformation = None, p_data = None \<rparr>"

text \<open>A host that answers every call; the buffer of every id is \<open>/a.ts\<close>.\<close>

definition fixture_denops :: "host \<Rightarrow> coc_diagnostic list \<Rightarrow> denops" where
  "fixture_denops h cocs =
    \<lparr> meta_host = h,
      vim_diagnostic_get = (\<lambda>b. Inr (Some [fixture_nvim])),
      coc_diagnosticList = Inr (Some cocs),
      vimlsp_grouped_by_server_for_uri =
        (\<lambda>u. Inr [(''server'', \<lparr> params_uri = u, params_diagnostics = [fixture_protocol] \<rparr>)]),
      vimlsp_grouped_by_uri_and_server =
        Inr [(''file:///a.ts'',
              [(''server'', \<lparr> params_uri = ''file:///a.ts'', params_diagnostics = [fixture_protocol] \<rparr>)])],
      bufNrToFileUri = (\<lambda>b. Inr ''file:///a.ts''),
      fromFileUrl = (\<lambda>u. Inr (drop 7 u)),
      addIconAndHighlight = (\<lambda>item. Inr item) \<rparr>"

text \<open>The locations that the entries of a response resolve to, in order.\<close>

definition all_entries :: "response \<Rightarrow> location list" where
  "all_entries response =
    concat (map (\<lambda>(clientId, result).
      case result of Single loc \<Rightarrow> [loc] | Many locs \<Rightarrow> map toLocation locs) response)"

definition fixture_link :: raw_location where
  "fixture_link = LocationLink
     \<lparr> originSelectionRange = None, targetUri = ''file:///x.ts'', targetRange = fixture_range,
       targetSelectionRange = \<lparr> start = \<lparr> line = 4, character = 1 \<rparr>,
                                end_pos = \<lparr> line = 4, character = 6 \<rparr> \<rparr> \<rparr>"

definition fixture_pathname :: "string \<Rightarrow> error + string" where
  "fixture_pathname u = Inr (drop 7 u)"

definition fixture_response :: response where
  "fixture_response =
    [(1, Many [fixture_link, Location \<lparr> uri = ''deno:/foo%23%5Efragment'', loc_range = fixture_range \<rparr>]),
     (2, Single \<lparr> uri = ''deno:/bar.ts'', loc_range = fixture_range \<rparr>)]"

section \<open>The engine's sort on a comparator that follows a key\<close>



























section \<open>The comparator of the sorter\<close>







section \<open>Claims about the sorter\<close>









section \<open>Results that are errors\<close>

lemma bind_err_simps [simp]:
  "bind_err (Inl e) f = Inl e" "bind_err (Inr x) f = f x"
  by (simp_all add: bind_err_def)

lemma bind_err_InrE:
  assumes "bind_err m f = Inr y"
  obtains x where "m = Inr x" "f x = Inr y"
  using assms by (cases m) (auto simp: bind_err_def)

lemma map_err_Inr:
  "map_err f xs = Inr ys \<Longrightarrow> list_all2 (\<lambda>x y. f x = Inr y) xs ys"
proof (induction xs arbitrary: ys)
  case Nil
  then show ?case by simp
next
  case (Cons x xs)
  then show ?case
    by (cases "f x"; cases "map_err f xs") auto
qed

lemma map_err_Inl:
  "x \<in> set xs \<Longrightarrow> f x = Inl e \<Longrightarrow> \<exists>e'. map_err f xs = Inl e'"
proof (induction xs)
  case Nil
  then show ?case by simp
next
  case (Cons a xs)
  then show ?case
    by (cases "f a"; cases "map_err f xs") auto
qed

lemma map_err_all_Inl:
  "xs \<noteq> [] \<Longrightarrow> \<forall>x\<in>set xs. f x = Inl e \<Longrightarrow> map_err f xs = Inl e"
  by (cases xs) auto

lemma flat_map_err_Inr:
  assumes "flat_map_err f xs = Inr ys" "y \<in> set ys"
  shows "\<exists>x\<in>set xs. \<exists>zs. f x = Inr zs \<and> y \<in> set zs"
proof -
  from assms(1) obtain yss where m: "map_err f xs = Inr yss" and c: "ys = concat yss"
    by (cases "map_err f xs") (auto simp: flat_map_err_def)
  from assms(2) c obtain zs where zs: "zs \<in> set yss" "y \<in> set zs" by auto
  from zs(1) obtain i where i: "i < length yss" "yss ! i = zs" by (auto simp: in_set_conv_nth)
  from map_err_Inr[OF m] i have "xs ! i \<in> set xs" "f (xs ! i) = Inr zs"
    by (auto simp: list_all2_conv_all_nth)
  then obtain x where "x \<in> set xs" "f x = Inr zs" by blast
  with zs(2) show ?thesis by blast
qed

lemma vimlsp_group_path:
  assumes "flat_map_err (vimlsp_group dn) gs = Inr ds" "d \<in> set ds"
  shows "path d \<noteq> None"
proof -
  from flat_map_err_Inr[OF assms] obtain g zs where "vimlsp_group dn g = Inr zs" "d \<in> set zs"
    by blast
  then show ?thesis
    by (cases "fromFileUrl dn (params_uri g)") (auto simp: vimlsp_group_def vimlsp_to_ddu_def)
qed

section \<open>Tables, digits and picked fields\<close>

lemma Severity_table:
  "Severity ''Error'' = Some 1" "Severity ''Warning'' = Some 2"
  "Severity ''Info'' = Some 3" "Severity ''Hint'' = Some 4"
  by (simp_all add: Severity_def)


lemma pick_keys: "fst ` set (pick ob keys) \<subseteq> set keys"
  by (auto simp: pick_def split: option.splits)

lemma pick_value: "k \<in> set keys \<Longrightarrow> map_of (pick ob keys) k = map_of ob k"
  unfolding pick_def
proof (induction keys)
  case Nil
  then show ?case by simp
next
  case (Cons a keys)
  have nk: "map_of (concat (map (\<lambda>k. case map_of ob k of None \<Rightarrow> [] | Some v \<Rightarrow> [(k, v)]) keys)) k = None"
    if "k \<notin> set keys"
    using that pick_keys[of ob keys] by (auto simp: map_of_eq_None_iff pick_def)
  show ?case
  proof (cases "a = k")
    case True
    then show ?thesis
    proof (cases "map_of ob k")
      case None
      show ?thesis
      proof (cases "k \<in> set keys")
        case True
        with Cons.IH None \<open>a = k\<close> show ?thesis by simp
      next
        case False
        with nk None \<open>a = k\<close> show ?thesis by simp
      qed
    next
      case (Some v)
      with True show ?thesis by simp
    qed
  next
    case False
    with Cons show ?thesis by (cases "map_of ob a") auto
  qed
qed

lemma map_of_opt_field: "n \<noteq> k \<Longrightarrow> map_of (opt_field n v @ xs) k = map_of xs k"
  by (cases v) (simp_all add: opt_field_def)

section \<open>The pattern of the blocked URIs and the entries of a response\<close>

lemma dot_star_fragment_intro:
  assumes "\<forall>c\<in>set pre. \<not> line_terminator c" "enc \<in> set [''%5E'', ''%7E'', ''%3C'', ''%3D'']"
  shows "dot_star_fragment (pre @ ''%23'' @ enc @ suf)"
  using assms(1)
proof (induction pre)
  case Nil
  have "udd_fragment (''%23'' @ enc @ suf)" using assms(2) by (auto simp: udd_fragment_def)
  then show ?case by simp
next
  case (Cons c pre)
  then show ?case by simp
qed

lemma raw_entries:
  "all_entries response = map toLocation
     (concat (map (\<lambda>(clientId, result).
        case result of Single loc \<Rightarrow> [Location loc] | Many locs \<Rightarrow> locs) response))"
  by (induction response) (auto simp: all_entries_def split: lsp_result.splits)

lemma references_entries:
  "map_err (\<lambda>entry. case entry of Location loc \<Rightarrow> locationToItem pathname loc
                                 | LocationLink _ \<Rightarrow> Inl (Error ''TypeError''))
      (filter (\<lambda>entry. case entry of Location loc \<Rightarrow> \<not> isDenoUriWithFragment loc
                                    | LocationLink _ \<Rightarrow> True) es) = Inr items \<Longrightarrow>
   map_err (locationToItem pathname)
      (filter (\<lambda>loc. \<not> isDenoUriWithFragment loc) (map toLocation es)) = Inr items"
proof (induction es arbitrary: items)
  case Nil
  then show ?case by simp
next
  case (Cons e es)
  show ?case
  proof (cases e)
    case (LocationLink k)
    with Cons.prems show ?thesis by simp
  next
    case (Location l)
    show ?thesis
    proof (cases "isDenoUriWithFragment l")
      case True
      with Cons Location show ?thesis by simp
    next
      case False
      with Cons.prems Location obtain y ys where
        y: "locationToItem pathname l = Inr y"
        and ys: "map_err (\<lambda>entry. case entry of Location loc \<Rightarrow> locationToItem pathname loc
                                 | LocationLink _ \<Rightarrow> Inl (Error ''TypeError''))
          (filter (\<lambda>entry. case entry of Location loc \<Rightarrow> \<not> isDenoUriWithFragment loc
                                    | LocationLink _ \<Rightarrow> True) es) = Inr ys"
        and i: "items = y # ys"
        by (auto elim!: bind_err_InrE)
      from Cons.IH[OF ys] y i False Location show ?thesis by simp
    qed
  qed
qed

section \<open>Claims about the adapters\<close>



text \<open>
  Claim C6: the coc.nvim adapter returns all raw records when the scope is \<open>null\<close>, and, when
  the scope is a buffer id (ids are not 0) whose resolved URI \<open>u\<close> is not empty, exactly the
  raw records whose \<open>location.uri\<close> is \<open>u\<close>, in order; every output record has the severity
  that the table \<open>{Error:1, Warning:2, Info:3, Hint:4}\<close> gives to the raw severity name, the
  raw \<open>file\<close> as \<open>path\<close> and the raw \<open>location.range\<close> as \<open>range\<close>.
\<close>

theorem C6_coc_adapter:
  assumes "coc_diagnosticList dn = Inr (Some raw)"
  shows "getCocDiagnostics dn None = Inr (Some (map coc_to_ddu raw)) \<and>
    (\<forall>b u. b \<noteq> 0 \<and> bufNrToFileUri dn b = Inr u \<and> u \<noteq> [] \<longrightarrow>
       getCocDiagnostics dn (Some b) =
         Inr (Some (map coc_to_ddu (filter (\<lambda>diag. uri (location diag) = u) raw)))) \<and>
    (\<forall>diag. severity (coc_to_ddu diag) = Severity (coc_severity diag) \<and>
       path (coc_to_ddu diag) = Some (coc_file diag) \<and>
       range (coc_to_ddu diag) = loc_range (location diag)) \<and>
    Severity ''Error'' = Some 1 \<and> Severity ''Warning'' = Some 2 \<and>
    Severity ''Info'' = Some 3 \<and> Severity ''Hint'' = Some 4"
proof -
  have 1: "getCocDiagnostics dn None = Inr (Some (map coc_to_ddu raw))"
    using assms by (simp add: getCocDiagnostics_def truthy_def)
  have 2: "getCocDiagnostics dn (Some b) =
         Inr (Some (map coc_to_ddu (filter (\<lambda>diag. uri (location diag) = u) raw)))"
    if "b \<noteq> 0" "bufNrToFileUri dn b = Inr u" "u \<noteq> []" for b u
    using assms that by (simp add: getCocDiagnostics_def truthy_def)
  have 3: "severity (coc_to_ddu diag) = Severity (coc_severity diag) \<and>
       path (coc_to_ddu diag) = Some (coc_file diag) \<and>
       range (coc_to_ddu diag) = loc_range (location diag)" for diag
    by (simp add: coc_to_ddu_def)
  show ?thesis using 1 2 3 Severity_table by blast
qed

theorem C6_coc_adapter_witness:
  "coc_diagnosticList (fixture_denops Nvim [fixture_coc ''file:///a.ts'', fixture_coc ''file:///b.ts'']) =
     Inr (Some [fixture_coc ''file:///a.ts'', fixture_coc ''file:///b.ts'']) \<and>
   getCocDiagnostics (fixture_denops Nvim [fixture_coc ''file:///a.ts'', fixture_coc ''file:///b.ts'']) (Some 7) =
     Inr (Some [coc_to_ddu (fixture_coc ''file:///a.ts'')]) \<and>
   getCocDiagnostics (fixture_denops Nvim [fixture_coc ''file:///a.ts'', fixture_coc ''file:///b.ts'']) None =
     Inr (Some [coc_to_ddu (fixture_coc ''file:///a.ts''), coc_to_ddu (fixture_coc ''file:///b.ts'')]) \<and>
   severity (coc_to_ddu (fixture_coc ''file:///a.ts'')) = Some 2"
proof -
  let ?dn = "fixture_denops Nvim [fixture_coc ''file:///a.ts'', fixture_coc ''file:///b.ts'']"
  have h: "coc_diagnosticList ?dn = Inr (Some [fixture_coc ''file:///a.ts'', fixture_coc ''file:///b.ts''])"
    by (simp add: fixture_denops_def)
  have u: "(7::int) \<noteq> 0 \<and> bufNrToFileUri ?dn 7 = Inr ''file:///a.ts'' \<and> ''file:///a.ts'' \<noteq> []"
    by (simp add: fixture_denops_def)
  have f: "filter (\<lambda>diag. uri (location diag) = ''file:///a.ts'')
      [fixture_coc ''file:///a.ts'', fixture_coc ''file:///b.ts''] = [fixture_coc ''file:///a.ts'']"
    by (simp add: fixture_coc_def)
  have s: "Severity (coc_severity (fixture_coc ''file:///a.ts'')) = Some 2"
    by (simp add: fixture_coc_def Severity_def)
  from C6_coc_adapter[OF h] have
    "getCocDiagnostics ?dn None = Inr (Some (map coc_to_ddu [fixture_coc ''file:///a.ts'', fixture_coc ''file:///b.ts'']))"
    "getCocDiagnostics ?dn (Some 7) = Inr (Some (map coc_to_ddu (filter (\<lambda>diag. uri (location diag) = ''file:///a.ts'')
      [fixture_coc ''file:///a.ts'', fixture_coc ''file:///b.ts''])))"
    "severity (coc_to_ddu (fixture_coc ''file:///a.ts'')) = Severity (coc_severity (fixture_coc ''file:///a.ts''))"
    using u by blast+
  then show ?thesis using h f s by simp
qed

text \<open>
  Claim C10: every record that the nvim-lsp adapter returns has \<open>bufNr\<close> defined, and every
  record that the coc.nvim adapter or the vim-lsp adapter returns has \<open>path\<close> defined.
\<close>

theorem C10_buffer_context:
  "(getNvimLspDiagnostics dn b = Inr (Some ds) \<longrightarrow> (\<forall>d\<in>set ds. bufNr d \<noteq> None)) \<and>
   (getCocDiagnostics dn b = Inr (Some ds) \<longrightarrow> (\<forall>d\<in>set ds. path d \<noteq> None)) \<and>
   (getVimLspDiagnostics dn b = Inr (Some ds) \<longrightarrow> (\<forall>d\<in>set ds. path d \<noteq> None))"
proof (intro conjI impI ballI)
  fix d assume "getNvimLspDiagnostics dn b = Inr (Some ds)" "d \<in> set ds"
  then show "bufNr d \<noteq> None"
    by (cases "vim_diagnostic_get dn b")
      (auto simp: getNvimLspDiagnostics_def nvim_to_ddu_def split: if_splits)
next
  fix d assume a: "getCocDiagnostics dn b = Inr (Some ds)" "d \<in> set ds"
  from a(1) obtain u res where "coc_diagnosticList dn = Inr res"
    "map_option (\<lambda>ds. map coc_to_ddu (filter (\<lambda>diag. (u = None \<or> u = Some []) \<or> Some (uri (location diag)) = u) ds)) res = Some ds"
    unfolding getCocDiagnostics_def by (elim bind_err_InrE) auto
  with a(2) show "path d \<noteq> None"
    by (auto simp: coc_to_ddu_def)
next
  fix d assume a: "getVimLspDiagnostics dn b = Inr (Some ds)" "d \<in> set ds"
  have "\<exists>gs. flat_map_err (vimlsp_group dn) gs = Inr ds"
  proof (cases "truthy b")
    case True
    with a(1) show ?thesis
      unfolding getVimLspDiagnostics_def by (simp only: if_True) (elim bind_err_InrE, auto)
  next
    case False
    with a(1) show ?thesis
      unfolding getVimLspDiagnostics_def by (simp only: if_False) (elim bind_err_InrE, auto)
  qed
  then obtain gs where "flat_map_err (vimlsp_group dn) gs = Inr ds" by blast
  then show "path d \<noteq> None" using a(2) by (rule vimlsp_group_path)
qed

theorem C10_buffer_context_witness:
  "getNvimLspDiagnostics (fixture_denops Nvim []) (Some 7) = Inr (Some [nvim_to_ddu fixture_nvim]) \<and>
   bufNr (nvim_to_ddu fixture_nvim) = Some 7 \<and>
   getVimLspDiagnostics (fixture_denops Nvim []) (Some 7) = Inr (Some [vimlsp_to_ddu ''/a.ts'' fixture_protocol]) \<and>
   path (vimlsp_to_ddu ''/a.ts'' fixture_protocol) \<noteq> None \<and>
   getCocDiagnostics (fixture_denops Nvim [fixture_coc ''file:///a.ts'']) (Some 7) =
     Inr (Some [coc_to_ddu (fixture_coc ''file:///a.ts'')]) \<and>
   path (coc_to_ddu (fixture_coc ''file:///a.ts'')) \<noteq> None"
proof -
  have n: "getNvimLspDiagnostics (fixture_denops Nvim []) (Some 7) = Inr (Some [nvim_to_ddu fixture_nvim])"
    by (simp add: getNvimLspDiagnostics_def fixture_denops_def)
  have v: "getVimLspDiagnostics (fixture_denops Nvim []) (Some 7) = Inr (Some [vimlsp_to_ddu ''/a.ts'' fixture_protocol])"
    by (simp add: getVimLspDiagnostics_def fixture_denops_def truthy_def flat_map_err_def vimlsp_group_def)
  have c: "getCocDiagnostics (fixture_denops Nvim [fixture_coc ''file:///a.ts'']) (Some 7) =
     Inr (Some [coc_to_ddu (fixture_coc ''file:///a.ts'')])"
    by (simp add: getCocDiagnostics_def fixture_denops_def truthy_def fixture_coc_def)
  have b: "bufNr (nvim_to_ddu fixture_nvim) = Some 7" by (simp add: nvim_to_ddu_def fixture_nvim_def)
  show ?thesis
    using n v c b
      C10_buffer_context[of "fixture_denops Nvim []" "Some 7" "[nvim_to_ddu fixture_nvim]"]
      C10_buffer_context[of "fixture_denops Nvim []" "Some 7" "[vimlsp_to_ddu ''/a.ts'' fixture_protocol]"]
      C10_buffer_context[of "fixture_denops Nvim [fixture_coc ''file:///a.ts'']" "Some 7" "[coc_to_ddu (fixture_coc ''file:///a.ts'')]"]
    by simp
qed

section \<open>Claims about the item builders\<close>



section \<open>Claims about the orchestrator and the sanitizer\<close>

text \<open>
  Claim C8: on a vim host the nvim-lsp adapter fails with the error
  \<open>Client 'nvim-lsp' is not available in vim\<close>; whenever the adapter fails for a buffer of the
  scope, \<open>gather\<close> enqueues nothing, hands one error to \<open>printError\<close> under the name
  \<open>lsp_diagnostic\<close> and closes the stream; for the nvim-lsp client on a vim host that error is
  the one of the adapter.
\<close>

theorem C8_failure_caught:
  "(meta_host dn = Vim \<longrightarrow>
      getNvimLspDiagnostics dn b = Inl (Error ''Client 'nvim-lsp' is not available in vim'')) \<and>
   ((\<exists>x\<in>set (scope_buffers buffer). \<exists>e.
        getDiagnostic clientName dn (if x = Some 0 then Some context_bufNr else x) = Inl e) \<longrightarrow>
      (\<exists>e. gather dn context_bufNr clientName buffer =
         \<lparr> enqueued = [], reported = [(e, ''lsp_diagnostic'')], console = [], closed = True \<rparr>)) \<and>
   (meta_host dn = Vim \<and> scope_buffers buffer \<noteq> [] \<longrightarrow>
      gather dn context_bufNr NvimLsp buffer =
         \<lparr> enqueued = [], reported = [(Error ''Client 'nvim-lsp' is not available in vim'', ''lsp_diagnostic'')],
           console = [], closed = True \<rparr>)"
proof (intro conjI impI)
  assume "meta_host dn = Vim"
  then show "getNvimLspDiagnostics dn b = Inl (Error ''Client 'nvim-lsp' is not available in vim'')"
    by (simp add: getNvimLspDiagnostics_def)
next
  let ?f = "\<lambda>buffer'. bind_err (getDiagnostic clientName dn (if buffer' = Some 0 then Some context_bufNr else buffer'))
          (\<lambda>res. Inr (case res of None \<Rightarrow> [] | Some ds \<Rightarrow> ds))"
  assume "\<exists>x\<in>set (scope_buffers buffer). \<exists>e.
        getDiagnostic clientName dn (if x = Some 0 then Some context_bufNr else x) = Inl e"
  then obtain x e where x: "x \<in> set (scope_buffers buffer)" "?f x = Inl e" by auto
  from map_err_Inl[where f="?f", OF x(1) x(2)] obtain e' where "map_err ?f (scope_buffers buffer) = Inl e'" by blast
  then have "gather_items dn context_bufNr clientName buffer = Inl e'"
    by (simp add: gather_items_def assertClientName_def asyncFlatMap_def flat_map_err_def)
  then show "\<exists>e. gather dn context_bufNr clientName buffer =
         \<lparr> enqueued = [], reported = [(e, ''lsp_diagnostic'')], console = [], closed = True \<rparr>"
    by (simp add: gather_def)
next
  let ?e = "Error ''Client 'nvim-lsp' is not available in vim''"
  let ?f = "\<lambda>buffer'. bind_err (getDiagnostic NvimLsp dn (if buffer' = Some 0 then Some context_bufNr else buffer'))
          (\<lambda>res. Inr (case res of None \<Rightarrow> [] | Some ds \<Rightarrow> ds))"
  assume a: "meta_host dn = Vim \<and> scope_buffers buffer \<noteq> []"
  then have "\<forall>x\<in>set (scope_buffers buffer). ?f x = Inl ?e"
    by (simp add: getDiagnostic_def getNvimLspDiagnostics_def)
  with a have "map_err ?f (scope_buffers buffer) = Inl ?e" by (intro map_err_all_Inl) auto
  then have "gather_items dn context_bufNr NvimLsp buffer = Inl ?e"
    by (simp add: gather_items_def assertClientName_def asyncFlatMap_def flat_map_err_def)
  then show "gather dn context_bufNr NvimLsp buffer =
         \<lparr> enqueued = [], reported = [(?e, ''lsp_diagnostic'')], console = [], closed = True \<rparr>"
    by (simp add: gather_def)
qed

theorem C8_failure_caught_witness:
  "meta_host (fixture_denops Vim []) = Vim \<and> scope_buffers (Buffers [0, 3]) \<noteq> [] \<and>
   gather (fixture_denops Vim []) 7 NvimLsp (Buffers [0, 3]) =
     \<lparr> enqueued = [], reported = [(Error ''Client 'nvim-lsp' is not available in vim'', ''lsp_diagnostic'')],
       console = [], closed = True \<rparr>"
proof -
  have h: "meta_host (fixture_denops Vim []) = Vim \<and> scope_buffers (Buffers [0, 3]) \<noteq> []"
    by (simp add: fixture_denops_def scope_buffers_def)
  show ?thesis using h C8_failure_caught[of "fixture_denops Vim []" "Some 7" "Buffers [0, 3]" NvimLsp 7] by blast
qed

text \<open>
  Claim C9: for every diagnostic, whatever \<open>bufNr\<close>, \<open>path\<close> and extra fields it carries, the
  record that the sanitizer returns has only fields among \<open>range\<close>, \<open>severity\<close>, \<open>code\<close>,
  \<open>codeDescription\<close>, \<open>source\<close>, \<open>message\<close>, \<open>tags\<close>, \<open>relatedInformation\<close> and \<open>data\<close>
  (so neither \<open>bufNr\<close> nor \<open>path\<close> nor any other extra field), and keeps \<open>range\<close> and
  \<open>message\<close>; whenever the adapter returns, \<open>getProperDiagnostics\<close> returns the sanitized
  records, one for each diagnostic.
\<close>

theorem C9_sanitizer:
  "(\<forall>d. fst ` set (pick (to_obj d) proper_fields) \<subseteq> set proper_fields \<and>
        ''bufNr'' \<notin> fst ` set (pick (to_obj d) proper_fields) \<and>
        ''path'' \<notin> fst ` set (pick (to_obj d) proper_fields) \<and>
        (\<forall>k\<in>fst ` set (extra d). k \<notin> set proper_fields \<longrightarrow> k \<notin> fst ` set (pick (to_obj d) proper_fields)) \<and>
        map_of (pick (to_obj d) proper_fields) ''range'' = Some (json_range (range d)) \<and>
        map_of (pick (to_obj d) proper_fields) ''message'' = Some (JStr (message d))) \<and>
   (\<forall>res. getDiagnostic clientName dn b = Inr res \<longrightarrow>
      getProperDiagnostics clientName dn b =
        Inr (map (\<lambda>diag. pick (to_obj diag) proper_fields) (case res of None \<Rightarrow> [] | Some ds \<Rightarrow> ds)))"
proof (intro conjI allI impI)
  fix d
  show k: "fst ` set (pick (to_obj d) proper_fields) \<subseteq> set proper_fields" by (rule pick_keys)
  show "''bufNr'' \<notin> fst ` set (pick (to_obj d) proper_fields)"
    using k by (auto simp: proper_fields_def)
  show "''path'' \<notin> fst ` set (pick (to_obj d) proper_fields)"
    using k by (auto simp: proper_fields_def)
  show "\<forall>k\<in>fst ` set (extra d). k \<notin> set proper_fields \<longrightarrow> k \<notin> fst ` set (pick (to_obj d) proper_fields)"
    using k by blast
  have "map_of (pick (to_obj d) proper_fields) ''range'' = map_of (to_obj d) ''range''"
    by (rule pick_value) (simp add: proper_fields_def)
  then show "map_of (pick (to_obj d) proper_fields) ''range'' = Some (json_range (range d))"
    by (simp add: to_obj_def)
  have "map_of (pick (to_obj d) proper_fields) ''message'' = map_of (to_obj d) ''message''"
    by (rule pick_value) (simp add: proper_fields_def)
  then show "map_of (pick (to_obj d) proper_fields) ''message'' = Some (JStr (message d))"
    by (simp add: to_obj_def map_of_opt_field del: map_of_append)
next
  fix res assume "getDiagnostic clientName dn b = Inr res"
  then show "getProperDiagnostics clientName dn b =
        Inr (map (\<lambda>diag. pick (to_obj diag) proper_fields) (case res of None \<Rightarrow> [] | Some ds \<Rightarrow> ds))"
    by (cases res) (simp_all add: getProperDiagnostics_def)
qed

theorem C9_sanitizer_witness:
  "getDiagnostic CocNvim (fixture_denops Nvim [fixture_coc ''file:///a.ts'']) None =
     Inr (Some [coc_to_ddu (fixture_coc ''file:///a.ts'')]) \<and>
   getProperDiagnostics CocNvim (fixture_denops Nvim [fixture_coc ''file:///a.ts'']) None =
     Inr [ [(''range'', json_range fixture_range), (''severity'', JNum 2),
           (''message'', JStr ''unused variable'')] ]"
proof -
  have h: "getDiagnostic CocNvim (fixture_denops Nvim [fixture_coc ''file:///a.ts'']) None =
     Inr (Some [coc_to_ddu (fixture_coc ''file:///a.ts'')])"
    by (simp add: getDiagnostic_def getCocDiagnostics_def fixture_denops_def truthy_def)
  have p: "pick (to_obj (coc_to_ddu (fixture_coc ''file:///a.ts''))) proper_fields =
     [(''range'', json_range fixture_range), (''severity'', JNum 2), (''message'', JStr ''unused variable'')]"
    by (simp add: pick_def to_obj_def coc_to_ddu_def fixture_coc_def proper_fields_def opt_field_def
        Severity_def)
  from C9_sanitizer[of CocNvim "fixture_denops Nvim [fixture_coc ''file:///a.ts'']" None] h
  have "getProperDiagnostics CocNvim (fixture_denops Nvim [fixture_coc ''file:///a.ts'']) None =
        Inr (map (\<lambda>diag. pick (to_obj diag) proper_fields)
          (case Some [coc_to_ddu (fixture_coc ''file:///a.ts'')] of None \<Rightarrow> [] | Some ds \<Rightarrow> ds))"
    by blast
  then show ?thesis using h p by simp
qed

section \<open>Claims about the location source\<close>

text \<open>
  Claim C5: an entry with \<open>uri\<close> and \<open>range\<close> resolves to itself and a link resolves to its
  \<open>targetUri\<close> and \<open>targetSelectionRange\<close>; a location whose URI is \<open>deno:\<close>, any characters on
  one line, \<open>%23\<close> and one of \<open>%5E\<close>, \<open>%7E\<close>, \<open>%3C\<close>, \<open>%3D\<close> is recognised as blocked; and for
  every supported method the batch that \<open>gather\<close> enqueues is built from the resolved
  locations that are not blocked, in order.
\<close>

theorem C5_location_resolution:
  "(\<forall>loc. toLocation (Location loc) = loc) \<and>
   (\<forall>link. toLocation (LocationLink link) =
      \<lparr> uri = targetUri link, loc_range = targetSelectionRange link \<rparr>) \<and>
   (\<forall>pre enc suf r. (\<forall>c\<in>set pre. \<not> line_terminator c) \<and>
        enc \<in> set [''%5E'', ''%7E'', ''%3C'', ''%3D''] \<longrightarrow>
      isDenoUriWithFragment \<lparr> uri = ''deno:'' @ pre @ ''%23'' @ enc @ suf, loc_range = r \<rparr>) \<and>
   (\<forall>method out. isSupportedMethod method \<and>
        gather_locations pathname method (Some response) = Inr out \<longrightarrow>
      (\<exists>items. enqueued out = [items] \<and>
         map_err (locationToItem pathname)
           (filter (\<lambda>loc. \<not> isDenoUriWithFragment loc) (all_entries response)) = Inr items))"
proof (intro conjI allI impI)
  fix pre enc suf r
  assume "(\<forall>c\<in>set pre. \<not> line_terminator c) \<and> enc \<in> set [''%5E'', ''%7E'', ''%3C'', ''%3D'']"
  then have "dot_star_fragment (pre @ ''%23'' @ enc @ suf)" by (intro dot_star_fragment_intro) auto
  then show "isDenoUriWithFragment \<lparr> uri = ''deno:'' @ pre @ ''%23'' @ enc @ suf, loc_range = r \<rparr>"
    by (simp add: isDenoUriWithFragment_def startsWith_def)
next
  fix m out
  assume a: "isSupportedMethod m \<and> gather_locations pathname m (Some response) = Inr out"
  show "\<exists>items. enqueued out = [items] \<and>
         map_err (locationToItem pathname)
           (filter (\<lambda>loc. \<not> isDenoUriWithFragment loc) (all_entries response)) = Inr items"
  proof (cases "m = ''textDocument/references''")
    case True
    with a obtain items where r: "referencesHandler pathname response = Inr items"
      and o: "enqueued out = [items]"
      by (auto simp: gather_locations_def elim!: bind_err_InrE)
    from r have "map_err (locationToItem pathname)
           (filter (\<lambda>loc. \<not> isDenoUriWithFragment loc) (all_entries response)) = Inr items"
      unfolding referencesHandler_def raw_entries by (rule references_entries)
    with o show ?thesis by blast
  next
    case False
    with a obtain items where r: "definitionHandler pathname response = Inr items"
      and o: "enqueued out = [items]"
      by (auto simp: gather_locations_def elim!: bind_err_InrE)
    from r have "map_err (locationToItem pathname)
           (filter (\<lambda>loc. \<not> isDenoUriWithFragment loc) (all_entries response)) = Inr items"
      by (simp add: definitionHandler_def all_entries_def)
    with o show ?thesis by blast
  qed
qed simp_all

theorem C5_location_resolution_witness:
  "isSupportedMethod ''textDocument/definition'' \<and>
   isDenoUriWithFragment \<lparr> uri = ''deno:/foo%23%5Efragment'', loc_range = fixture_range \<rparr> \<and>
   gather_locations fixture_pathname ''textDocument/definition'' (Some fixture_response) =
     Inr \<lparr> enqueued =
             [ [\<lparr> f_word = ''/x.ts'', f_display = ''/x.ts:5:2'',
                 f_action = \<lparr> fa_path = ''/x.ts'', fa_lineNr = 5, fa_col = 2 \<rparr> \<rparr>,
               \<lparr> f_word = ''deno:/bar.ts'', f_display = ''deno:/bar.ts:3:5'',
                 f_action = \<lparr> fa_path = ''deno:/bar.ts'', fa_lineNr = 3, fa_col = 5 \<rparr> \<rparr>] ],
           reported = [], console = [], closed = True \<rparr> \<and>
   (\<exists>items. map_err (locationToItem fixture_pathname)
      (filter (\<lambda>loc. \<not> isDenoUriWithFragment loc) (all_entries fixture_response)) = Inr items \<and>
      length items = 2)"
proof -
  let ?out = "\<lparr> enqueued =
             [ [\<lparr> f_word = ''/x.ts'', f_display = ''/x.ts:5:2'',
                 f_action = \<lparr> fa_path = ''/x.ts'', fa_lineNr = 5, fa_col = 2 \<rparr> \<rparr>,
               \<lparr> f_word = ''deno:/bar.ts'', f_display = ''deno:/bar.ts:3:5'',
                 f_action = \<lparr> fa_path = ''deno:/bar.ts'', fa_lineNr = 3, fa_col = 5 \<rparr> \<rparr>] ],
           reported = [], console = [], closed = True \<rparr>"
  have m: "isSupportedMethod ''textDocument/definition''" by code_simp
  have g: "gather_locations fixture_pathname ''textDocument/definition'' (Some fixture_response) = Inr ?out"
    by code_simp
  have u: "''deno:/foo%23%5Efragment'' = ''deno:'' @ ''/foo'' @ ''%23'' @ ''%5E'' @ ''fragment''" by simp
  have p: "(\<forall>c\<in>set ''/foo''. \<not> line_terminator c) \<and> ''%5E'' \<in> set [''%5E'', ''%7E'', ''%3C'', ''%3D'']"
    by (simp add: line_terminator_def)
  note t = C5_location_resolution[of fixture_pathname fixture_response]
  from t p have "isDenoUriWithFragment \<lparr> uri = ''deno:'' @ ''/foo'' @ ''%23'' @ ''%5E'' @ ''fragment'', loc_range = fixture_range \<rparr>"
    by blast
  then have i: "isDenoUriWithFragment \<lparr> uri = ''deno:/foo%23%5Efragment'', loc_range = fixture_range \<rparr>"
    by (simp only: u)
  from t m g have "\<exists>items. enqueued ?out = [items] \<and>
         map_err (locationToItem fixture_pathname)
           (filter (\<lambda>loc. \<not> isDenoUriWithFragment loc) (all_entries fixture_response)) = Inr items"
    by blast
  then have e: "\<exists>items. map_err (locationToItem fixture_pathname)
      (filter (\<lambda>loc. \<not> isDenoUriWithFragment loc) (all_entries fixture_response)) = Inr items \<and>
      length items = 2"
    by auto
  show ?thesis using m i g e by blast
qed

end
